theory Spec2Isabelle
  imports Main "HOL-Library.AList" "HOL-Library.Sublist" "HOL-Library.Word"
begin

section \<open>The job store (class \<open>SigningStore\<close>)\<close>

text \<open>
  Strings are \<open>char list\<close>s, a \<open>char\<close> being a code unit below \<open>0x100\<close> (strings
  holding larger code units are not in the model); the signed artifact (a
  \<open>Uint8Array\<close>) is a list of 8-bit words, timestamps (\<open>Date.now()\<close>, milliseconds)
  are integers. An optional field of the TypeScript interface is an \<open>option\<close>:
  \<open>None\<close> is \<open>undefined\<close>.
\<close>

type_synonym bytes = "8 word list"

datatype SigningJobStatus = Pending | Completed | Error

record SigningJob =
  id_job :: string
  fileName :: string
  fileType :: string
  status :: SigningJobStatus
  createdAt :: int
  updatedAt :: int
  workflowId :: "string option"
  workflowStatus :: "string option"
  signedDocument :: "bytes option"
  signedFileName :: "string option"
  signedContentType :: "string option"
  errorMessage :: "string option"

text \<open>
  The class \<open>SigningStore\<close>: the private \<open>Map\<close> of jobs, in insertion order, and the
  time-to-live. \<open>Map.set\<close> is \<open>AList.update\<close> (an existing key keeps its place, a new
  one goes last), \<open>Map.get\<close> is \<open>map_of\<close>, \<open>Map.delete\<close> is \<open>AList.delete\<close>.
  The methods mutate the job object held by the map; the model writes the updated
  record back under the same key. Every method that reads \<open>Date.now()\<close> takes the
  reading as the argument \<open>now\<close>, and \<open>createJob\<close> takes the result of
  \<open>crypto.randomUUID()\<close> as the argument \<open>uuid\<close>.
\<close>

record SigningStore =
  jobs :: "(string \<times> SigningJob) list"
  ttlMs :: int

definition ONE_HOUR :: int where
  "ONE_HOUR = 1000 * 60 * 60"

definition newStore :: "int \<Rightarrow> SigningStore" where
  "newStore ttl = \<lparr>jobs = [], ttlMs = ttl\<rparr>"

definition signingStore :: SigningStore where
  "signingStore = newStore ONE_HOUR"

definition getJob :: "SigningStore \<Rightarrow> string \<Rightarrow> SigningJob option" where
  "getJob s jobId = map_of (jobs s) jobId"

definition createJob :: "string \<Rightarrow> int \<Rightarrow> string \<Rightarrow> string \<Rightarrow> SigningStore \<Rightarrow> SigningJob \<times> SigningStore" where
  "createJob uuid now fName fType s =
     (let job = \<lparr>id_job = uuid, fileName = fName, fileType = fType, status = Pending,
                 createdAt = now, updatedAt = now,
                 workflowId = None, workflowStatus = None, signedDocument = None,
                 signedFileName = None, signedContentType = None, errorMessage = None\<rparr>
      in (job, s\<lparr>jobs := AList.update uuid job (jobs s)\<rparr>))"

definition setWorkflow :: "int \<Rightarrow> string \<Rightarrow> string \<Rightarrow> string option \<Rightarrow> SigningStore \<Rightarrow> SigningStore" where
  "setWorkflow now jobId wfId wfStatus s =
     (case getJob s jobId of
        None \<Rightarrow> s
      | Some job \<Rightarrow>
          s\<lparr>jobs := AList.update jobId
                (job\<lparr>workflowId := Some wfId, workflowStatus := wfStatus, updatedAt := now\<rparr>)
                (jobs s)\<rparr>)"

definition setWorkflowStatus :: "int \<Rightarrow> string \<Rightarrow> string \<Rightarrow> SigningStore \<Rightarrow> SigningStore" where
  "setWorkflowStatus now jobId wfStatus s =
     (case getJob s jobId of
        None \<Rightarrow> s
      | Some job \<Rightarrow>
          s\<lparr>jobs := AList.update jobId
                (job\<lparr>workflowStatus := Some wfStatus, updatedAt := now\<rparr>)
                (jobs s)\<rparr>)"

text \<open>\<open>String.prototype.lastIndexOf\<close> for a one-character pattern: the greatest index
  holding the character, or \<open>-1\<close>.\<close>

fun lastIndexOf :: "string \<Rightarrow> char \<Rightarrow> int" where
  "lastIndexOf [] c = - 1"
| "lastIndexOf (x # xs) c =
     (let r = lastIndexOf xs c
      in if 0 \<le> r then r + 1 else if x = c then 0 else - 1)"

definition defaultSignedName :: "string \<Rightarrow> string" where
  "defaultSignedName original =
     (let dotIdx = lastIndexOf original (CHR ''.'')
      in if dotIdx = - 1 then original @ ''-signed.pdf''
         else (let base = take (nat dotIdx) original;
                   ext = drop (nat dotIdx) original
               in base @ ''-signed'' @ ext))"

text \<open>The payload of \<open>completeJob\<close>: \<open>{ bytes; fileName?; contentType? }\<close>.\<close>

record CompletePayload =
  bytes_p :: bytes
  fileName_p :: "string option"
  contentType_p :: "string option"

definition completeJob :: "int \<Rightarrow> string \<Rightarrow> CompletePayload \<Rightarrow> SigningStore \<Rightarrow> SigningStore" where
  "completeJob now jobId payload s =
     (case getJob s jobId of
        None \<Rightarrow> s
      | Some job \<Rightarrow>
          s\<lparr>jobs := AList.update jobId
                (job\<lparr>status := Completed,
                     updatedAt := now,
                     signedDocument := Some (bytes_p payload),
                     signedFileName :=
                       Some (case fileName_p payload of
                               Some n \<Rightarrow> n
                             | None \<Rightarrow> defaultSignedName (fileName job)),
                     signedContentType :=
                       Some (case contentType_p payload of
                               Some c \<Rightarrow> c
                             | None \<Rightarrow> fileType job)\<rparr>)
                (jobs s)\<rparr>)"

definition failJob :: "int \<Rightarrow> string \<Rightarrow> string \<Rightarrow> SigningStore \<Rightarrow> SigningStore" where
  "failJob now jobId msg s =
     (case getJob s jobId of
        None \<Rightarrow> s
      | Some job \<Rightarrow>
          s\<lparr>jobs := AList.update jobId
                (job\<lparr>status := Error, updatedAt := now, errorMessage := Some msg\<rparr>)
                (jobs s)\<rparr>)"

text \<open>
  The sweep \<open>#evictExpired\<close>: the \<open>for ... of\<close> loop over the map's entries, deleting
  the entry under visit when it is too old. A JavaScript \<open>Map\<close> iterator survives the
  deletion of the entry it stands on, so the loop visits every entry once:
  \<open>evictLoop\<close> walks the entries and carries the map.
\<close>

fun evictLoop :: "int \<Rightarrow> int \<Rightarrow> (string \<times> SigningJob) list \<Rightarrow> (string \<times> SigningJob) list
                  \<Rightarrow> (string \<times> SigningJob) list" where
  "evictLoop now ttl [] m = m"
| "evictLoop now ttl ((jobId, job) # entries) m =
     evictLoop now ttl entries
       (if now - updatedAt job > ttl then AList.delete jobId m else m)"

definition evictExpired :: "int \<Rightarrow> SigningStore \<Rightarrow> SigningStore" where
  "evictExpired now s = s\<lparr>jobs := evictLoop now (ttlMs s) (jobs s) (jobs s)\<rparr>"

section \<open>The provider client, as the handlers see it (backend/goodflag.ts)\<close>

text \<open>
  The functions of the provider client are HTTP calls. A handler sees of each call only
  what it returns or the \<open>Error\<close> it throws, so the client is a record of functions
  from the arguments to \<open>Inr\<close> of the returned value or \<open>Inl\<close> of the thrown error's
  message (every \<open>throw\<close> of the client, and of \<open>fetch\<close>, throws an \<open>Error\<close>).
\<close>

record GoodflagWorkflow =
  id_wf :: string
  workflowStatus_wf :: "string option"

record DownloadResult =
  bytes_dl :: bytes
  fileName_dl :: "string option"
  contentType_dl :: string

record UploadWorkflowDocumentResult =
  documentId :: "string option"

text \<open>The \<open>File\<close> of the Web API: its name, its MIME type and its content.\<close>

record File =
  name_file :: string
  type_file :: string
  content_file :: bytes

text \<open>The object \<open>signerInfo\<close> that \<open>handleSign\<close> builds.\<close>

record SignerInfo =
  email :: string
  firstName :: "string option"
  lastName :: "string option"
  preferredLocale :: "string option"
  comments :: "string option"
  consentPageId :: "string option"
  userId :: "string option"

record CreateWorkflowOptions =
  name_opt :: string
  signer :: SignerInfo

record Provider =
  createWorkflow :: "CreateWorkflowOptions \<Rightarrow> string + GoodflagWorkflow"
  uploadWorkflowDocument :: "string \<Rightarrow> File \<Rightarrow> string + UploadWorkflowDocumentResult"
  applyDefaultSignatureField :: "string \<Rightarrow> string + unit"
  startWorkflow :: "string \<Rightarrow> string + GoodflagWorkflow"
  fetchWorkflow :: "string \<Rightarrow> string + GoodflagWorkflow"
  downloadWorkflowDocuments :: "string \<Rightarrow> string + DownloadResult"

section \<open>The request handlers (backend/main.ts)\<close>

subsection \<open>Strings and truthiness\<close>

text \<open>
  \<open>toLowerCase\<close>, \<open>trim\<close>, \<open>includes\<close> and \<open>endsWith\<close> of JavaScript strings, on
  strings of code units below \<open>0x100\<close>. There \<open>toLowerCase\<close> maps \<open>A\<close>..\<open>Z\<close> to
  \<open>a\<close>..\<open>z\<close> and the capital letters \<open>0xC0\<close>..\<open>0xDE\<close> other than the multiplication
  sign \<open>0xD7\<close> to the letters \<open>0x20\<close> above them, and \<open>trim\<close> strips tab, line feed,
  vertical tab, form feed, carriage return, space and the no-break space \<open>0xA0\<close>. A
  string is truthy when it is not empty, and the tests of the handlers on optional
  strings are written out: present and not empty.
\<close>

definition toLowerChar :: "char \<Rightarrow> char" where
  "toLowerChar c =
     (let n = (of_char c :: nat)
      in if (65 \<le> n \<and> n \<le> 90) \<or> (192 \<le> n \<and> n \<le> 222 \<and> n \<noteq> 215)
         then char_of (n + 32) else c)"

definition toLowerCase :: "string \<Rightarrow> string" where
  "toLowerCase s = map toLowerChar s"

fun includesStr :: "string \<Rightarrow> string \<Rightarrow> bool" where
  "includesStr [] pat = (pat = [])"
| "includesStr (c # cs) pat = (prefix pat (c # cs) \<or> includesStr cs pat)"

definition endsWith :: "string \<Rightarrow> string \<Rightarrow> bool" where
  "endsWith s suf = (length suf \<le> length s \<and> drop (length s - length suf) s = suf)"

definition isSpace :: "char \<Rightarrow> bool" where
  "isSpace c =
     (c \<in> set [CHR 0x09, CHR 0x0A, CHR 0x0B, CHR 0x0C, CHR 0x0D, CHR '' '', CHR 0xA0])"

definition trim :: "string \<Rightarrow> string" where
  "trim s = rev (dropWhile isSpace (rev (dropWhile isSpace s)))"

text \<open>\<open>a || b\<close> on strings, and \<open>a ?? b\<close> on an optional string.\<close>

definition orElse :: "string \<Rightarrow> string \<Rightarrow> string" where
  "orElse a b = (if a \<noteq> [] then a else b)"

definition nullish :: "string option \<Rightarrow> string \<Rightarrow> string" where
  "nullish a b = (case a of Some x \<Rightarrow> x | None \<Rightarrow> b)"

subsection \<open>Requests and responses\<close>

datatype FormDataEntryValue = EntryString string | EntryFile File

text \<open>
  The request of \<open>POST /api/sign\<close>: its \<open>content-type\<close> header and what
  \<open>req.formData()\<close> gives, the fields in order (\<open>FormData.get\<close> returns the first entry
  of a name) or the error it throws on a body it cannot parse.
\<close>

record SignRequest =
  contentTypeHeader :: "string option"
  formData :: "string + (string \<times> FormDataEntryValue) list"

record SignSummary =
  jobId_sg :: string
  status_sg :: SigningJobStatus
  workflowId_sg :: string
  workflowStatus_sg :: string
  fileName_sg :: string

record StatusSummary =
  jobId_st :: string
  status_st :: SigningJobStatus
  updatedAt_st :: int
  fileName_st :: string
  signedFileName_st :: "string option"
  workflowId_st :: "string option"
  workflowStatus_st :: "string option"
  error_st :: "string option"
  downloadUrl_st :: "string option"

datatype JsonBody =
    ErrorBody string
  | SignBody SignSummary
  | StatusBody StatusSummary

text \<open>
  A response is a JSON response (\<open>jsonResponse\<close>: HTTP status, default 200, and body) or
  the file response of the download handler: HTTP status, body bytes, \<open>Content-Type\<close>
  and \<open>Content-Disposition\<close> as the \<open>Headers\<close> object holds them. The headers that
  are the same on every response (CORS, \<open>Cache-Control\<close>) are left out.
\<close>

datatype Response =
    JsonResponse nat JsonBody
  | FileResponse nat bytes string string

definition getTextValue :: "FormDataEntryValue option \<Rightarrow> string option" where
  "getTextValue v =
     (case v of
        Some (EntryString x) \<Rightarrow>
          (let trimmed = trim x in if length trimmed > 0 then Some trimmed else None)
      | _ \<Rightarrow> None)"

subsection \<open>\<open>handleSign\<close>\<close>

text \<open>The test of lines 63 to 67: the upload is refused as not being a PDF.\<close>

definition notPdf :: "File \<Rightarrow> bool" where
  "notPdf file =
     (type_file file \<noteq> [] \<and>
      type_file file \<noteq> ''application/pdf'' \<and>
      \<not> endsWith (toLowerCase (name_file file)) ''.pdf'')"

text \<open>
  The \<open>try\<close> block of \<open>handleSign\<close>. It gives the store as the block leaves it, with
  \<open>Inl\<close> of the message of the error thrown inside or \<open>Inr\<close> of the response returned.
  \<open>job\<close> is the object \<open>createJob\<close> returned, which is also the object held by the store;
  the block reads its \<open>id\<close>, \<open>status\<close> and \<open>fileName\<close>, none of which the store calls
  of the block (\<open>setWorkflow\<close>, \<open>setWorkflowStatus\<close>) write. The placing of the default
  signature field only logs a warning when it fails and has no part in the result.
\<close>

definition signTry :: "Provider \<Rightarrow> int \<Rightarrow> int \<Rightarrow> SigningJob \<Rightarrow> string \<Rightarrow> SignerInfo \<Rightarrow> File
                       \<Rightarrow> SigningStore \<Rightarrow> (string + Response) \<times> SigningStore" where
  "signTry P tSet tStart job workflowName signerInfo file s =
     (case createWorkflow P \<lparr>name_opt = workflowName, signer = signerInfo\<rparr> of
        Inl err \<Rightarrow> (Inl err, s)
      | Inr workflow \<Rightarrow>
          (let s2 = setWorkflow tSet (id_job job) (id_wf workflow) (workflowStatus_wf workflow) s
           in case uploadWorkflowDocument P (id_wf workflow) file of
                Inl err \<Rightarrow> (Inl err, s2)
              | Inr uploadResult \<Rightarrow>
                  (case startWorkflow P (id_wf workflow) of
                     Inl err \<Rightarrow> (Inl err, s2)
                   | Inr startedWorkflow \<Rightarrow>
                       (let s3 = (case workflowStatus_wf startedWorkflow of
                                    Some st \<Rightarrow>
                                      if st \<noteq> [] then setWorkflowStatus tStart (id_job job) st s2
                                      else s2
                                  | None \<Rightarrow> s2)
                        in (Inr (JsonResponse 200 (SignBody
                              \<lparr>jobId_sg = id_job job,
                               status_sg = status job,
                               workflowId_sg = id_wf workflow,
                               workflowStatus_sg =
                                 (case workflowStatus_wf startedWorkflow of
                                    Some st \<Rightarrow> st
                                  | None \<Rightarrow> nullish (workflowStatus_wf workflow) ''started''),
                               fileName_sg = fileName job\<rparr>)), s3)))))"

text \<open>
  \<open>handleSign\<close>. \<open>uuid\<close> is the identifier \<open>createJob\<close> draws; \<open>tCreate\<close>, \<open>tSet\<close>,
  \<open>tStart\<close> and \<open>tFail\<close> are the clock readings of \<open>createJob\<close>, \<open>setWorkflow\<close>,
  \<open>setWorkflowStatus\<close> and \<open>failJob\<close>. The result is \<open>Inl\<close> when an error leaves the
  handler (only \<open>req.formData()\<close> can throw outside the \<open>try\<close> block), otherwise the
  response and the store.
\<close>

definition handleSign :: "Provider \<Rightarrow> string \<Rightarrow> int \<Rightarrow> int \<Rightarrow> int \<Rightarrow> int \<Rightarrow> SignRequest
                          \<Rightarrow> SigningStore \<Rightarrow> string + (Response \<times> SigningStore)" where
  "handleSign P uuid tCreate tSet tStart tFail req s =
     (let contentType = nullish (contentTypeHeader req) []
      in if \<not> includesStr contentType ''multipart/form-data''
         then Inr (JsonResponse 400 (ErrorBody ''Request must be multipart/form-data''), s)
         else
           (case formData req of
              Inl err \<Rightarrow> Inl err
            | Inr form \<Rightarrow>
                (case map_of form ''file'' of
                   Some (EntryFile file) \<Rightarrow>
                     if notPdf file
                     then Inr (JsonResponse 400 (ErrorBody ''Only PDF files are supported''), s)
                     else
                       (case getTextValue (map_of form ''signer_email'') of
                          None \<Rightarrow> Inr (JsonResponse 400 (ErrorBody ''Signer email is required''), s)
                        | Some signerEmail \<Rightarrow>
                            (let signerInfo =
                                   \<lparr>email = signerEmail,
                                    firstName = getTextValue (map_of form ''signer_first_name''),
                                    lastName = getTextValue (map_of form ''signer_last_name''),
                                    preferredLocale = getTextValue (map_of form ''signer_locale''),
                                    comments = getTextValue (map_of form ''signer_comments''),
                                    consentPageId = getTextValue (map_of form ''signer_consent_page_id''),
                                    userId = getTextValue (map_of form ''signer_user_id'')\<rparr>;
                                 workflowName =
                                   (case getTextValue (map_of form ''workflow_name'') of
                                      Some n \<Rightarrow> n
                                    | None \<Rightarrow> orElse (name_file file) ''Document signature workflow'');
                                 (job, s1) = createJob uuid tCreate
                                               (orElse (name_file file) ''document.pdf'')
                                               (orElse (type_file file) ''application/pdf'') s
                             in case signTry P tSet tStart job workflowName signerInfo file s1 of
                                  (Inr response, s') \<Rightarrow> Inr (response, s')
                                | (Inl message, s') \<Rightarrow>
                                    Inr (JsonResponse 502 (ErrorBody ''Failed to create Goodflag workflow''),
                                         failJob tFail (id_job job) message s')))
                 | _ \<Rightarrow> Inr (JsonResponse 400 (ErrorBody ''File field is required''), s))))"

subsection \<open>\<open>handleGetStatus\<close>\<close>

text \<open>
  The \<open>try\<close> block of \<open>handleGetStatus\<close>, entered with the pending job \<open>job\<close> and its
  workflow identifier. It gives the value of the variable \<open>job\<close> when the block is left
  (by its end or by an error, which the \<open>catch\<close> only logs) and the store. The variable
  is re-read from the store after each store call; \<open>None\<close> is \<open>undefined\<close>, on which the
  next property access throws a \<open>TypeError\<close>. An \<open>undefined\<close> put into a template
  string reads \<open>undefined\<close>. \<open>tRefresh\<close> is the clock reading of \<open>setWorkflowStatus\<close>,
  \<open>tFinal\<close> that of \<open>completeJob\<close> or \<open>failJob\<close>.
\<close>

definition statusTry :: "Provider \<Rightarrow> int \<Rightarrow> int \<Rightarrow> string \<Rightarrow> SigningJob \<Rightarrow> string
                         \<Rightarrow> SigningStore \<Rightarrow> SigningJob option \<times> SigningStore" where
  "statusTry P tRefresh tFinal jobId job wfId s =
     (case fetchWorkflow P wfId of
        Inl err \<Rightarrow> (Some job, s)
      | Inr workflow \<Rightarrow>
          (let (job1, s1) =
                 (case workflowStatus_wf workflow of
                    Some ws \<Rightarrow>
                      if ws \<noteq> []
                      then (let s' = setWorkflowStatus tRefresh (id_job job) ws s
                            in (getJob s' jobId, s'))
                      else (Some job, s)
                  | None \<Rightarrow> (Some job, s));
               normalizedStatus = map_option toLowerCase (workflowStatus_wf workflow)
           in if normalizedStatus = Some ''finished''
              then (case job1 of
                      None \<Rightarrow> (None, s1)
                    | Some j1 \<Rightarrow>
                        (case downloadWorkflowDocuments P (nullish (workflowId j1) ''undefined'') of
                           Inl err \<Rightarrow> (Some j1, s1)
                         | Inr signedDl \<Rightarrow>
                             (let s2 = completeJob tFinal (id_job j1)
                                         \<lparr>bytes_p = bytes_dl signedDl,
                                          fileName_p = fileName_dl signedDl,
                                          contentType_p = Some (contentType_dl signedDl)\<rparr> s1
                              in (getJob s2 jobId, s2))))
              else if (case normalizedStatus of
                         Some n \<Rightarrow>
                           n \<noteq> [] \<and> n \<in> set [''stopped'', ''refused'', ''canceled'', ''failed'']
                       | None \<Rightarrow> False)
              then (case job1 of
                      None \<Rightarrow> (None, s1)
                    | Some j1 \<Rightarrow>
                        (let s2 = failJob tFinal (id_job j1)
                                    (''Workflow '' @ nullish (workflowStatus_wf workflow) ''undefined'') s1
                         in (getJob s2 jobId, s2)))
              else (job1, s1)))"

definition statusSummary :: "SigningJob \<Rightarrow> StatusSummary" where
  "statusSummary job =
     \<lparr>jobId_st = id_job job,
      status_st = status job,
      updatedAt_st = updatedAt job,
      fileName_st = fileName job,
      signedFileName_st = signedFileName job,
      workflowId_st = workflowId job,
      workflowStatus_st = workflowStatus job,
      error_st = errorMessage job,
      downloadUrl_st = (if status job = Completed
                        then Some (''/api/sign/'' @ id_job job @ ''/file'') else None)\<rparr>"

text \<open>
  \<open>handleGetStatus\<close>. The result is \<open>Inl\<close> when an error leaves the handler (the
  \<open>TypeError\<close> of reading a property of \<open>undefined\<close>), otherwise the response and the
  store.
\<close>

definition handleGetStatus :: "Provider \<Rightarrow> int \<Rightarrow> int \<Rightarrow> string \<Rightarrow> SigningStore
                               \<Rightarrow> string + (Response \<times> SigningStore)" where
  "handleGetStatus P tRefresh tFinal jobId s =
     (case getJob s jobId of
        None \<Rightarrow> Inr (JsonResponse 404 (ErrorBody ''Signing job not found''), s)
      | Some job \<Rightarrow>
          (let (job', s') =
                 (case workflowId job of
                    Some wfId \<Rightarrow>
                      if status job = Pending \<and> wfId \<noteq> []
                      then statusTry P tRefresh tFinal jobId job wfId s
                      else (Some job, s)
                  | None \<Rightarrow> (Some job, s))
           in case job' of
                None \<Rightarrow> Inl ''TypeError''
              | Some j \<Rightarrow> Inr (JsonResponse 200 (StatusBody (statusSummary j)), s')))"

subsection \<open>\<open>handleDownload\<close>\<close>






section \<open>Sequences of store calls\<close>

text \<open>
  A call of one of the store's methods, with the arguments it gets and the clock reading
  (or fresh identifier) it draws; \<open>OpEvictExpired\<close> is a tick of the sweep timer.
  \<open>runOps\<close> performs a sequence of calls, first to last.
\<close>

datatype StoreOp =
    OpCreateJob string int string string
  | OpSetWorkflow int string string "string option"
  | OpSetWorkflowStatus int string string
  | OpCompleteJob int string CompletePayload
  | OpFailJob int string string
  | OpEvictExpired int

fun applyOp :: "StoreOp \<Rightarrow> SigningStore \<Rightarrow> SigningStore" where
  "applyOp (OpCreateJob uuid now fName fType) s = snd (createJob uuid now fName fType s)"
| "applyOp (OpSetWorkflow now jobId wfId wfStatus) s = setWorkflow now jobId wfId wfStatus s"
| "applyOp (OpSetWorkflowStatus now jobId wfStatus) s = setWorkflowStatus now jobId wfStatus s"
| "applyOp (OpCompleteJob now jobId payload) s = completeJob now jobId payload s"
| "applyOp (OpFailJob now jobId msg) s = failJob now jobId msg s"
| "applyOp (OpEvictExpired now) s = evictExpired now s"

definition runOps :: "StoreOp list \<Rightarrow> SigningStore \<Rightarrow> SigningStore" where
  "runOps ops s = fold applyOp ops s"

text \<open>The calls that write the \<open>workflowId\<close> of the job \<open>jobId\<close>: \<open>setWorkflow\<close> with
  that id, and \<open>createJob\<close> when it draws that id (which replaces the record).\<close>

fun writesWorkflowId :: "string \<Rightarrow> StoreOp \<Rightarrow> bool" where
  "writesWorkflowId jobId (OpSetWorkflow now k wfId wfStatus) = (k = jobId)"
| "writesWorkflowId jobId (OpCreateJob uuid now fName fType) = (uuid = jobId)"
| "writesWorkflowId jobId _ = False"

text \<open>What the status of a job says about its optional result fields.\<close>

definition resultFieldsOk :: "SigningJob \<Rightarrow> bool" where
  "resultFieldsOk job =
     ((status job = Completed \<longrightarrow> signedDocument job \<noteq> None) \<and>
      (status job = Error \<longrightarrow> errorMessage job \<noteq> None) \<and>
      (status job = Pending \<longrightarrow> signedDocument job = None \<and> errorMessage job = None))"

section \<open>Filename derivation\<close>

lemma lastIndexOf_absent: "c \<notin> set s \<Longrightarrow> lastIndexOf s c = - 1"
  by (induction s) (auto simp: Let_def)

lemma lastIndexOf_split:
  "c \<notin> set ext \<Longrightarrow> lastIndexOf (base @ c # ext) c = int (length base)"
  by (induction base) (auto simp: Let_def lastIndexOf_absent)

text \<open>
  Claim C5. When \<open>completeJob\<close> gets no explicit signed filename, the stored signed
  filename is the one derived from the job's original filename; the derivation appends
  \<open>-signed.pdf\<close> to a name without a dot and turns \<open>base.ext\<close> (the dot being the
  last one of the name) into \<open>base-signed.ext\<close>; so \<open>report.pdf\<close> gives
  \<open>report-signed.pdf\<close> and \<open>README\<close> gives \<open>README-signed.pdf\<close>.
\<close>

theorem defaultSignedName_derivation:
  "(getJob s jobId = Some job \<and> fileName_p payload = None \<longrightarrow>
     (\<exists>job'. getJob (completeJob now jobId payload s) jobId = Some job' \<and>
        signedFileName job' = Some (defaultSignedName (fileName job)))) \<and>
   (CHR ''.'' \<notin> set original \<longrightarrow>
      defaultSignedName original = original @ ''-signed.pdf'') \<and>
   (CHR ''.'' \<notin> set ext \<longrightarrow>
      defaultSignedName (base @ CHR ''.'' # ext) = base @ ''-signed'' @ CHR ''.'' # ext) \<and>
   defaultSignedName ''report.pdf'' = ''report-signed.pdf'' \<and>
   defaultSignedName ''README'' = ''README-signed.pdf''"
proof (intro conjI impI)
  assume "getJob s jobId = Some job \<and> fileName_p payload = None"
  then show "\<exists>job'. getJob (completeJob now jobId payload s) jobId = Some job' \<and>
        signedFileName job' = Some (defaultSignedName (fileName job))"
    by (simp add: completeJob_def getJob_def AList.update_conv')
next
  assume "CHR ''.'' \<notin> set original"
  then show "defaultSignedName original = original @ ''-signed.pdf''"
    by (simp add: defaultSignedName_def lastIndexOf_absent)
next
  assume "CHR ''.'' \<notin> set ext"
  then show "defaultSignedName (base @ CHR ''.'' # ext) = base @ ''-signed'' @ CHR ''.'' # ext"
    by (simp add: defaultSignedName_def lastIndexOf_split)
next
  show "defaultSignedName ''report.pdf'' = ''report-signed.pdf''"
    by (simp add: defaultSignedName_def)
next
  show "defaultSignedName ''README'' = ''README-signed.pdf''"
    by (simp add: defaultSignedName_def)
qed

theorem defaultSignedName_derivation_witness:
  "getJob (snd (createJob ''j1'' 5 ''contract.v2.pdf'' ''application/pdf'' (newStore 10))) ''j1''
     = Some (fst (createJob ''j1'' 5 ''contract.v2.pdf'' ''application/pdf'' (newStore 10))) \<and>
   (\<exists>job'. getJob (completeJob 7 ''j1'' \<lparr>bytes_p = [1, 2], fileName_p = None, contentType_p = None\<rparr>
                (snd (createJob ''j1'' 5 ''contract.v2.pdf'' ''application/pdf'' (newStore 10)))) ''j1''
              = Some job' \<and>
            signedFileName job' = Some ''contract.v2-signed.pdf'') \<and>
   CHR ''.'' \<notin> set ''Makefile'' \<and>
   defaultSignedName ''Makefile'' = ''Makefile-signed.pdf'' \<and>
   CHR ''.'' \<notin> set ''gz'' \<and>
   defaultSignedName ''a.tar.gz'' = ''a.tar-signed.gz''"
  using defaultSignedName_derivation
    [of "snd (createJob ''j1'' 5 ''contract.v2.pdf'' ''application/pdf'' (newStore 10))" "''j1''"
        "fst (createJob ''j1'' 5 ''contract.v2.pdf'' ''application/pdf'' (newStore 10))"
        "\<lparr>bytes_p = [1, 2], fileName_p = None, contentType_p = None\<rparr>" 7
        "''Makefile''" "''gz''" "''a.tar''"]
  by (simp add: createJob_def newStore_def getJob_def defaultSignedName_def Let_def)

section \<open>Lookups after a store call\<close>

lemma getJob_setWorkflow:
  "getJob (setWorkflow now k wfId wfStatus s) jobId =
     (if k = jobId
      then map_option (\<lambda>job. job\<lparr>workflowId := Some wfId, workflowStatus := wfStatus,
                                  updatedAt := now\<rparr>) (getJob s jobId)
      else getJob s jobId)"
  by (simp add: setWorkflow_def getJob_def AList.update_conv' split: option.splits)

lemma getJob_setWorkflowStatus:
  "getJob (setWorkflowStatus now k wfStatus s) jobId =
     (if k = jobId
      then map_option (\<lambda>job. job\<lparr>workflowStatus := Some wfStatus, updatedAt := now\<rparr>)
             (getJob s jobId)
      else getJob s jobId)"
  by (simp add: setWorkflowStatus_def getJob_def AList.update_conv' split: option.splits)

lemma getJob_completeJob:
  "getJob (completeJob now k payload s) jobId =
     (if k = jobId
      then map_option
             (\<lambda>job. job\<lparr>status := Completed, updatedAt := now,
                         signedDocument := Some (bytes_p payload),
                         signedFileName :=
                           Some (case fileName_p payload of
                                   Some n \<Rightarrow> n
                                 | None \<Rightarrow> defaultSignedName (fileName job)),
                         signedContentType :=
                           Some (case contentType_p payload of
                                   Some c \<Rightarrow> c
                                 | None \<Rightarrow> fileType job)\<rparr>)
             (getJob s jobId)
      else getJob s jobId)"
  by (simp add: completeJob_def getJob_def AList.update_conv' split: option.splits)

lemma getJob_failJob:
  "getJob (failJob now k msg s) jobId =
     (if k = jobId
      then map_option (\<lambda>job. job\<lparr>status := Error, updatedAt := now, errorMessage := Some msg\<rparr>)
             (getJob s jobId)
      else getJob s jobId)"
  by (simp add: failJob_def getJob_def AList.update_conv' split: option.splits)

lemma getJob_createJob:
  "getJob (snd (createJob uuid now fName fType s)) jobId =
     (if uuid = jobId then Some (fst (createJob uuid now fName fType s)) else getJob s jobId)"
  by (simp add: createJob_def getJob_def AList.update_conv' Let_def)

lemma map_of_evictLoop:
  "map_of (evictLoop now ttl entries m) k =
     (if \<exists>j. (k, j) \<in> set entries \<and> now - updatedAt j > ttl then None else map_of m k)"
  by (induction entries arbitrary: m) (auto simp: AList.delete_conv')

lemma getJob_evictExpired:
  assumes "distinct (map fst (jobs s))"
  shows "getJob (evictExpired now s) k =
           (case getJob s k of
              None \<Rightarrow> None
            | Some j \<Rightarrow> if now - updatedAt j > ttlMs s then None else Some j)"
proof (cases "getJob s k")
  case None
  then show ?thesis
    by (simp add: evictExpired_def getJob_def map_of_evictLoop)
next
  case (Some j)
  with assms have "\<And>j'. (k, j') \<in> set (jobs s) \<longleftrightarrow> j' = j"
    unfolding getJob_def by (metis map_of_eq_Some_iff option.inject)
  with Some show ?thesis
    by (simp add: evictExpired_def getJob_def map_of_evictLoop)
qed

lemma fst_createJob:
  "fst (createJob uuid now fName fType s) =
     \<lparr>id_job = uuid, fileName = fName, fileType = fType, status = Pending,
      createdAt = now, updatedAt = now,
      workflowId = None, workflowStatus = None, signedDocument = None,
      signedFileName = None, signedContentType = None, errorMessage = None\<rparr>"
  by (simp add: createJob_def Let_def)

lemma getJob_evictExpired_Some:
  "getJob (evictExpired now s) jobId = Some job \<Longrightarrow> getJob s jobId = Some job"
  by (simp add: evictExpired_def getJob_def map_of_evictLoop split: if_splits)

section \<open>Status transitions\<close>

text \<open>
  Claim C1, as the spec has it, fails on the store: \<open>completeJob\<close> and \<open>failJob\<close> write
  the status without looking at the present one. After \<open>createJob\<close> and \<open>failJob\<close> the job
  is in status \<open>error\<close>, and a following \<open>completeJob\<close> with its id makes it
  \<open>completed\<close>; likewise \<open>failJob\<close> after \<open>completeJob\<close> turns \<open>completed\<close> into
  \<open>error\<close>.
\<close>

theorem status_not_monotonic_counterexample:
  "map_option status
     (getJob (runOps [OpCreateJob ''j1'' 1 ''a.pdf'' ''application/pdf'',
                      OpFailJob 2 ''j1'' ''boom'']
                (newStore ONE_HOUR)) ''j1'') = Some Error \<and>
   map_option status
     (getJob (runOps [OpCreateJob ''j1'' 1 ''a.pdf'' ''application/pdf'',
                      OpFailJob 2 ''j1'' ''boom'',
                      OpCompleteJob 3 ''j1'' \<lparr>bytes_p = [37, 80], fileName_p = None, contentType_p = None\<rparr>]
                (newStore ONE_HOUR)) ''j1'') = Some Completed \<and>
   map_option status
     (getJob (runOps [OpCreateJob ''j1'' 1 ''a.pdf'' ''application/pdf'',
                      OpCompleteJob 2 ''j1'' \<lparr>bytes_p = [37, 80], fileName_p = None, contentType_p = None\<rparr>]
                (newStore ONE_HOUR)) ''j1'') = Some Completed \<and>
   map_option status
     (getJob (runOps [OpCreateJob ''j1'' 1 ''a.pdf'' ''application/pdf'',
                      OpCompleteJob 2 ''j1'' \<lparr>bytes_p = [37, 80], fileName_p = None, contentType_p = None\<rparr>,
                      OpFailJob 3 ''j1'' ''boom'']
                (newStore ONE_HOUR)) ''j1'') = Some Error"
  by (simp add: runOps_def getJob_createJob getJob_failJob getJob_completeJob)

text \<open>
  Claim C1, amended. For a job of the store, \<open>setWorkflow\<close> and \<open>setWorkflowStatus\<close>
  with its id leave its status as it is, \<open>completeJob\<close> with its id leaves it in status
  \<open>completed\<close> and \<open>failJob\<close> with its id leaves it in status \<open>error\<close>, whatever the
  status was: a completed job stays completed under \<open>completeJob\<close>, a failed job stays
  failed under \<open>failJob\<close>, and no call brings a job back to \<open>pending\<close>.
\<close>

theorem status_after_mutation:
  "getJob s jobId = Some job \<Longrightarrow>
     map_option status (getJob (setWorkflow now jobId wfId wfStatus s) jobId) = Some (status job) \<and>
     map_option status (getJob (setWorkflowStatus now jobId wfStatus' s) jobId) = Some (status job) \<and>
     map_option status (getJob (completeJob now jobId payload s) jobId) = Some Completed \<and>
     map_option status (getJob (failJob now jobId msg s) jobId) = Some Error"
  by (simp add: getJob_setWorkflow getJob_setWorkflowStatus getJob_completeJob getJob_failJob)

theorem status_after_mutation_witness:
  "getJob (runOps [OpCreateJob ''j1'' 1 ''a.pdf'' ''application/pdf'',
                   OpCompleteJob 2 ''j1'' \<lparr>bytes_p = [37, 80], fileName_p = None, contentType_p = None\<rparr>]
             (newStore ONE_HOUR)) ''j1'' \<noteq> None \<and>
   map_option status
     (getJob (setWorkflow 9 ''j1'' ''w1'' None
        (runOps [OpCreateJob ''j1'' 1 ''a.pdf'' ''application/pdf'',
                 OpCompleteJob 2 ''j1'' \<lparr>bytes_p = [37, 80], fileName_p = None, contentType_p = None\<rparr>]
           (newStore ONE_HOUR))) ''j1'') = Some Completed \<and>
   map_option status
     (getJob (completeJob 9 ''j1'' \<lparr>bytes_p = [1], fileName_p = None, contentType_p = None\<rparr>
        (runOps [OpCreateJob ''j1'' 1 ''a.pdf'' ''application/pdf'',
                 OpCompleteJob 2 ''j1'' \<lparr>bytes_p = [37, 80], fileName_p = None, contentType_p = None\<rparr>]
           (newStore ONE_HOUR))) ''j1'') = Some Completed"
proof -
  let ?s = "runOps [OpCreateJob ''j1'' 1 ''a.pdf'' ''application/pdf'',
                 OpCompleteJob 2 ''j1'' \<lparr>bytes_p = [37, 80], fileName_p = None, contentType_p = None\<rparr>]
           (newStore ONE_HOUR)"
  obtain job where j: "getJob ?s ''j1'' = Some job" and st: "status job = Completed"
    by (simp add: runOps_def getJob_createJob getJob_completeJob)
  from status_after_mutation [OF j, of 9 "''w1''" None "''x''"
      "\<lparr>bytes_p = [1], fileName_p = None, contentType_p = None\<rparr>" "''boom''"] j st
  show ?thesis by simp
qed

section \<open>Result fields and status\<close>

lemma runOps_snoc: "runOps (ops @ [op]) s = applyOp op (runOps ops s)"
  by (simp add: runOps_def)

lemma resultFieldsOk_applyOp:
  assumes inv: "\<And>k j. getJob s k = Some j \<Longrightarrow> resultFieldsOk j"
    and after: "getJob (applyOp op s) k = Some j"
  shows "resultFieldsOk j"
proof (cases op)
  case (OpCreateJob uuid now fName fType)
  with after consider "j = fst (createJob uuid now fName fType s)" | "getJob s k = Some j"
    by (auto simp: getJob_createJob split: if_splits)
  then show ?thesis
  proof cases
    case 1
    then show ?thesis by (simp add: createJob_def Let_def resultFieldsOk_def)
  next
    case 2
    then show ?thesis by (rule inv)
  qed
next
  case (OpSetWorkflow now k' wfId wfStatus)
  with after consider "getJob s k = Some j"
    | j0 where "getJob s k = Some j0"
        "j = j0\<lparr>workflowId := Some wfId, workflowStatus := wfStatus, updatedAt := now\<rparr>"
    by (auto simp: getJob_setWorkflow split: if_splits)
  then show ?thesis
  proof cases
    case 1
    then show ?thesis by (rule inv)
  next
    case 2
    with inv [of k j0] show ?thesis by (simp add: resultFieldsOk_def)
  qed
next
  case (OpSetWorkflowStatus now k' wfStatus)
  with after consider "getJob s k = Some j"
    | j0 where "getJob s k = Some j0"
        "j = j0\<lparr>workflowStatus := Some wfStatus, updatedAt := now\<rparr>"
    by (auto simp: getJob_setWorkflowStatus split: if_splits)
  then show ?thesis
  proof cases
    case 1
    then show ?thesis by (rule inv)
  next
    case 2
    with inv [of k j0] show ?thesis by (simp add: resultFieldsOk_def)
  qed
next
  case (OpCompleteJob now k' payload)
  with after consider "getJob s k = Some j"
    | "status j = Completed" "signedDocument j = Some (bytes_p payload)"
    by (auto simp: getJob_completeJob split: if_splits)
  then show ?thesis
  proof cases
    case 1
    then show ?thesis by (rule inv)
  next
    case 2
    then show ?thesis by (simp add: resultFieldsOk_def)
  qed
next
  case (OpFailJob now k' msg)
  with after consider "getJob s k = Some j"
    | "status j = Error" "errorMessage j = Some msg"
    by (auto simp: getJob_failJob split: if_splits)
  then show ?thesis
  proof cases
    case 1
    then show ?thesis by (rule inv)
  next
    case 2
    then show ?thesis by (simp add: resultFieldsOk_def)
  qed
next
  case (OpEvictExpired now)
  with after have "getJob s k = Some j"
    by (auto dest: getJob_evictExpired_Some)
  then show ?thesis by (rule inv)
qed

lemma resultFieldsOk_runOps:
  "getJob (runOps ops (newStore ttl)) k = Some j \<Longrightarrow> resultFieldsOk j"
proof (induction ops arbitrary: k j rule: rev_induct)
  case Nil
  then show ?case by (simp add: runOps_def newStore_def getJob_def)
next
  case (snoc op ops)
  show ?case
  proof (rule resultFieldsOk_applyOp)
    show "getJob (applyOp op (runOps ops (newStore ttl))) k = Some j"
      using snoc.prems by (simp add: runOps_snoc)
  next
    fix k' j'
    assume "getJob (runOps ops (newStore ttl)) k' = Some j'"
    then show "resultFieldsOk j'" by (rule snoc.IH)
  qed
qed

text \<open>
  Claim C2, as the spec has it, fails on the store: the two result fields are written by
  \<open>completeJob\<close> and \<open>failJob\<close> and never cleared. After \<open>createJob\<close>, \<open>completeJob\<close>
  and \<open>failJob\<close> the job is in status \<open>error\<close> with both \<open>signedDocument\<close> and
  \<open>errorMessage\<close> present; after \<open>createJob\<close>, \<open>failJob\<close> and \<open>completeJob\<close> it is
  in status \<open>completed\<close> with both present.
\<close>

theorem result_fields_counterexample:
  "map_option (\<lambda>j. (status j, signedDocument j, errorMessage j))
     (getJob (runOps [OpCreateJob ''j1'' 1 ''a.pdf'' ''application/pdf'',
                      OpCompleteJob 2 ''j1'' \<lparr>bytes_p = [37, 80], fileName_p = None, contentType_p = None\<rparr>,
                      OpFailJob 3 ''j1'' ''boom'']
                (newStore ONE_HOUR)) ''j1'')
     = Some (Error, Some [37, 80], Some ''boom'') \<and>
   map_option (\<lambda>j. (status j, signedDocument j, errorMessage j))
     (getJob (runOps [OpCreateJob ''j1'' 1 ''a.pdf'' ''application/pdf'',
                      OpFailJob 2 ''j1'' ''boom'',
                      OpCompleteJob 3 ''j1'' \<lparr>bytes_p = [37, 80], fileName_p = None, contentType_p = None\<rparr>]
                (newStore ONE_HOUR)) ''j1'')
     = Some (Completed, Some [37, 80], Some ''boom'')"
  by (simp add: runOps_def getJob_createJob getJob_failJob getJob_completeJob)

text \<open>
  Claim C2, amended. For every job of a store reached from the empty store by any
  sequence of store calls (sweeps included): in status \<open>completed\<close> the signed document
  is present, in status \<open>error\<close> the error message is present, and in status \<open>pending\<close>
  neither is present. So outside \<open>pending\<close> a job never has neither field.
\<close>

theorem result_fields_reachable:
  "getJob (runOps ops (newStore ttl)) jobId = Some job \<Longrightarrow>
     (status job = Completed \<longrightarrow> signedDocument job \<noteq> None) \<and>
     (status job = Error \<longrightarrow> errorMessage job \<noteq> None) \<and>
     (status job = Pending \<longrightarrow> signedDocument job = None \<and> errorMessage job = None) \<and>
     (status job \<noteq> Pending \<longrightarrow> signedDocument job \<noteq> None \<or> errorMessage job \<noteq> None)"
proof -
  assume "getJob (runOps ops (newStore ttl)) jobId = Some job"
  then have "resultFieldsOk job" by (rule resultFieldsOk_runOps)
  then show ?thesis
    by (cases "status job") (simp_all add: resultFieldsOk_def)
qed

theorem result_fields_reachable_witness:
  "getJob (runOps [OpCreateJob ''j1'' 1 ''a.pdf'' ''application/pdf'',
                   OpSetWorkflow 2 ''j1'' ''w1'' (Some ''draft''),
                   OpCompleteJob 3 ''j1'' \<lparr>bytes_p = [37, 80], fileName_p = None, contentType_p = None\<rparr>]
             (newStore 10)) ''j1'' \<noteq> None \<and>
   map_option status
     (getJob (runOps [OpCreateJob ''j1'' 1 ''a.pdf'' ''application/pdf'',
                      OpSetWorkflow 2 ''j1'' ''w1'' (Some ''draft''),
                      OpCompleteJob 3 ''j1'' \<lparr>bytes_p = [37, 80], fileName_p = None, contentType_p = None\<rparr>]
                (newStore 10)) ''j1'') = Some Completed \<and>
   map_option signedDocument
     (getJob (runOps [OpCreateJob ''j1'' 1 ''a.pdf'' ''application/pdf'',
                      OpSetWorkflow 2 ''j1'' ''w1'' (Some ''draft''),
                      OpCompleteJob 3 ''j1'' \<lparr>bytes_p = [37, 80], fileName_p = None, contentType_p = None\<rparr>]
                (newStore 10)) ''j1'') \<noteq> Some None"
proof -
  let ?ops = "[OpCreateJob ''j1'' 1 ''a.pdf'' ''application/pdf'',
               OpSetWorkflow 2 ''j1'' ''w1'' (Some ''draft''),
               OpCompleteJob 3 ''j1'' \<lparr>bytes_p = [37, 80], fileName_p = None, contentType_p = None\<rparr>]"
  obtain job where j: "getJob (runOps ?ops (newStore 10)) ''j1'' = Some job"
      and st: "status job = Completed"
    by (simp add: runOps_def getJob_createJob getJob_setWorkflow getJob_completeJob)
  from result_fields_reachable [OF j] j st
  show ?thesis by simp
qed

section \<open>The workflow identifier\<close>

lemma workflowId_applyOp:
  assumes "\<not> writesWorkflowId jobId op" and "getJob (applyOp op s) jobId = Some job'"
  shows "\<exists>job. getJob s jobId = Some job \<and> workflowId job = workflowId job'"
proof (cases op)
  case (OpCreateJob uuid now fName fType)
  with assms show ?thesis by (auto simp: getJob_createJob)
next
  case (OpSetWorkflow now k' wfId wfStatus)
  with assms show ?thesis by (auto simp: getJob_setWorkflow)
next
  case (OpSetWorkflowStatus now k' wfStatus)
  with assms show ?thesis by (auto simp: getJob_setWorkflowStatus split: if_splits)
next
  case (OpCompleteJob now k' payload)
  with assms show ?thesis by (auto simp: getJob_completeJob split: if_splits)
next
  case (OpFailJob now k' msg)
  with assms show ?thesis by (auto simp: getJob_failJob split: if_splits)
next
  case (OpEvictExpired now)
  with assms show ?thesis by (auto dest: getJob_evictExpired_Some)
qed

lemma workflowId_runOps:
  "\<forall>op \<in> set ops. \<not> writesWorkflowId jobId op \<Longrightarrow>
   getJob (runOps ops s) jobId = Some job' \<Longrightarrow>
   \<exists>job. getJob s jobId = Some job \<and> workflowId job = workflowId job'"
proof (induction ops arbitrary: job' rule: rev_induct)
  case Nil
  then show ?case by (simp add: runOps_def)
next
  case (snoc op ops)
  from snoc.prems have nw: "\<not> writesWorkflowId jobId op"
    and rest: "\<forall>op \<in> set ops. \<not> writesWorkflowId jobId op"
    and after: "getJob (applyOp op (runOps ops s)) jobId = Some job'"
    by (simp_all add: runOps_snoc)
  from workflowId_applyOp [OF nw after]
  obtain mid where m: "getJob (runOps ops s) jobId = Some mid"
    and eq: "workflowId mid = workflowId job'" by blast
  from snoc.IH [OF rest m] eq show ?case by auto
qed

text \<open>
  Claim C3, as the spec has it, fails on the store: \<open>setWorkflow\<close> writes \<open>workflowId\<close>
  without looking at the present value. A second \<open>setWorkflow\<close> with the same job id
  replaces \<open>w1\<close> by \<open>w2\<close>.
\<close>

theorem workflowId_overwritten_counterexample:
  "map_option workflowId
     (getJob (runOps [OpCreateJob ''j1'' 1 ''a.pdf'' ''application/pdf'',
                      OpSetWorkflow 2 ''j1'' ''w1'' (Some ''draft'')]
                (newStore ONE_HOUR)) ''j1'') = Some (Some ''w1'') \<and>
   map_option workflowId
     (getJob (runOps [OpCreateJob ''j1'' 1 ''a.pdf'' ''application/pdf'',
                      OpSetWorkflow 2 ''j1'' ''w1'' (Some ''draft''),
                      OpSetWorkflow 3 ''j1'' ''w2'' (Some ''draft'')]
                (newStore ONE_HOUR)) ''j1'') = Some (Some ''w2'')"
  by (simp add: runOps_def getJob_createJob getJob_setWorkflow)

text \<open>
  Claim C3, amended. The \<open>workflowId\<close> of a job is written by \<open>setWorkflow\<close> with its id
  only (and by \<open>createJob\<close>, should it draw the same id again, which replaces the whole
  record): \<open>setWorkflow\<close> stores the identifier it is given, and through any sequence of
  other store calls (\<open>setWorkflowStatus\<close>, \<open>completeJob\<close>, \<open>failJob\<close>, sweeps, calls for
  other ids) the job, as long as it is in the store, has the same \<open>workflowId\<close>.
\<close>

theorem workflowId_stable:
  "getJob s jobId = Some job \<Longrightarrow>
     map_option workflowId (getJob (setWorkflow now jobId wfId wfStatus s) jobId) = Some (Some wfId) \<and>
     ((\<forall>op \<in> set ops. \<not> writesWorkflowId jobId op) \<and>
      getJob (runOps ops s) jobId = Some job' \<longrightarrow> workflowId job' = workflowId job)"
proof
  assume j: "getJob s jobId = Some job"
  then show "map_option workflowId (getJob (setWorkflow now jobId wfId wfStatus s) jobId)
               = Some (Some wfId)"
    by (simp add: getJob_setWorkflow)
  show "(\<forall>op \<in> set ops. \<not> writesWorkflowId jobId op) \<and>
      getJob (runOps ops s) jobId = Some job' \<longrightarrow> workflowId job' = workflowId job"
  proof
    assume "(\<forall>op \<in> set ops. \<not> writesWorkflowId jobId op) \<and>
      getJob (runOps ops s) jobId = Some job'"
    then obtain j0 where "getJob s jobId = Some j0" and "workflowId j0 = workflowId job'"
      using workflowId_runOps by blast
    with j show "workflowId job' = workflowId job" by simp
  qed
qed

theorem workflowId_stable_witness:
  "getJob (runOps [OpCreateJob ''j1'' 1 ''a.pdf'' ''application/pdf'',
                   OpSetWorkflow 2 ''j1'' ''w1'' (Some ''draft'')] (newStore 10)) ''j1'' \<noteq> None \<and>
   \<not> writesWorkflowId ''j1'' (OpSetWorkflowStatus 3 ''j1'' ''started'') \<and>
   \<not> writesWorkflowId ''j1'' (OpSetWorkflow 4 ''j2'' ''w9'' None) \<and>
   \<not> writesWorkflowId ''j1'' (OpFailJob 5 ''j1'' ''boom'') \<and>
   map_option workflowId
     (getJob (runOps [OpSetWorkflowStatus 3 ''j1'' ''started'',
                      OpSetWorkflow 4 ''j2'' ''w9'' None,
                      OpFailJob 5 ''j1'' ''boom'']
        (runOps [OpCreateJob ''j1'' 1 ''a.pdf'' ''application/pdf'',
                 OpSetWorkflow 2 ''j1'' ''w1'' (Some ''draft'')] (newStore 10))) ''j1'')
     = Some (Some ''w1'')"
proof -
  let ?s = "runOps [OpCreateJob ''j1'' 1 ''a.pdf'' ''application/pdf'',
                    OpSetWorkflow 2 ''j1'' ''w1'' (Some ''draft'')] (newStore 10)"
  let ?ops = "[OpSetWorkflowStatus 3 ''j1'' ''started'',
               OpSetWorkflow 4 ''j2'' ''w9'' None,
               OpFailJob 5 ''j1'' ''boom'']"
  obtain job where j: "getJob ?s ''j1'' = Some job" and w: "workflowId job = Some ''w1''"
    by (simp add: runOps_def getJob_createJob getJob_setWorkflow)
  obtain job' where j': "getJob (runOps ?ops ?s) ''j1'' = Some job'"
    by (simp add: runOps_def getJob_createJob getJob_setWorkflow getJob_setWorkflowStatus
          getJob_failJob)
  have nw: "\<forall>op \<in> set ?ops. \<not> writesWorkflowId ''j1'' op" by simp
  from workflowId_stable [OF j, of 0 "''w''" None ?ops job'] nw j j' w
  show ?thesis by simp
qed

section \<open>Unknown job ids\<close>

text \<open>
  Claim C7. The store's methods have no failing branch (they are total functions with no
  error result). For a job id that is not a key of the store, \<open>setWorkflow\<close>,
  \<open>setWorkflowStatus\<close>, \<open>completeJob\<close> and \<open>failJob\<close> return the store as it was,
  and \<open>getJob\<close> returns \<open>undefined\<close>.
\<close>

theorem unknown_id_noop:
  "jobId \<notin> fst ` set (jobs s) \<Longrightarrow>
     setWorkflow now jobId wfId wfStatus s = s \<and>
     setWorkflowStatus now jobId wfStatus' s = s \<and>
     completeJob now jobId payload s = s \<and>
     failJob now jobId msg s = s \<and>
     getJob s jobId = None"
proof -
  assume "jobId \<notin> fst ` set (jobs s)"
  then have absent: "getJob s jobId = None"
    by (simp add: getJob_def map_of_eq_None_iff)
  then show ?thesis
    by (simp add: setWorkflow_def setWorkflowStatus_def completeJob_def failJob_def)
qed

theorem unknown_id_noop_witness:
  "''zz'' \<notin> fst ` set (jobs (snd (createJob ''j1'' 5 ''a.pdf'' ''application/pdf'' (newStore 10)))) \<and>
   setWorkflow 6 ''zz'' ''w1'' (Some ''draft'')
       (snd (createJob ''j1'' 5 ''a.pdf'' ''application/pdf'' (newStore 10)))
     = snd (createJob ''j1'' 5 ''a.pdf'' ''application/pdf'' (newStore 10)) \<and>
   failJob 6 ''zz'' ''boom''
       (snd (createJob ''j1'' 5 ''a.pdf'' ''application/pdf'' (newStore 10)))
     = snd (createJob ''j1'' 5 ''a.pdf'' ''application/pdf'' (newStore 10)) \<and>
   getJob (snd (createJob ''j1'' 5 ''a.pdf'' ''application/pdf'' (newStore 10))) ''zz'' = None"
proof -
  have h: "''zz'' \<notin> fst ` set (jobs (snd (createJob ''j1'' 5 ''a.pdf'' ''application/pdf'' (newStore 10))))"
    by (simp add: createJob_def newStore_def Let_def)
  from unknown_id_noop [OF h, of 6 "''w1''" "Some ''draft''" "''x''"
      "\<lparr>bytes_p = [], fileName_p = None, contentType_p = None\<rparr>" "''boom''"] h
  show ?thesis by blast
qed

section \<open>Eviction\<close>

text \<open>
  Claim C6. After a sweep at time \<open>now\<close>, a job whose idle time \<open>now - updatedAt\<close>
  exceeds the time-to-live is no longer in the store, and a job whose idle time is within
  the time-to-live is still there with the same record. (The keys of a \<open>Map\<close> are
  distinct; the list model says so in its first premise.)
\<close>

theorem evictExpired_sweep:
  assumes "distinct (map fst (jobs s))" and "getJob s jobId = Some job"
  shows "(now - updatedAt job > ttlMs s \<longrightarrow> getJob (evictExpired now s) jobId = None) \<and>
         (now - updatedAt job \<le> ttlMs s \<longrightarrow> getJob (evictExpired now s) jobId = Some job)"
  using assms by (simp add: getJob_evictExpired)

theorem evictExpired_sweep_witness:
  "distinct (map fst (jobs (snd (createJob ''b'' 95 ''b.pdf'' ''application/pdf''
       (snd (createJob ''a'' 5 ''a.pdf'' ''application/pdf'' (newStore 10))))))) \<and>
   getJob (evictExpired 100 (snd (createJob ''b'' 95 ''b.pdf'' ''application/pdf''
       (snd (createJob ''a'' 5 ''a.pdf'' ''application/pdf'' (newStore 10)))))) ''a'' = None \<and>
   getJob (evictExpired 100 (snd (createJob ''b'' 95 ''b.pdf'' ''application/pdf''
       (snd (createJob ''a'' 5 ''a.pdf'' ''application/pdf'' (newStore 10)))))) ''b''
     = Some (fst (createJob ''b'' 95 ''b.pdf'' ''application/pdf''
          (snd (createJob ''a'' 5 ''a.pdf'' ''application/pdf'' (newStore 10)))))"
proof -
  let ?s = "snd (createJob ''b'' 95 ''b.pdf'' ''application/pdf''
       (snd (createJob ''a'' 5 ''a.pdf'' ''application/pdf'' (newStore 10))))"
  have d: "distinct (map fst (jobs ?s))"
    by (simp add: createJob_def newStore_def Let_def)
  have a: "getJob ?s ''a'' = Some (fst (createJob ''a'' 5 ''a.pdf'' ''application/pdf'' (newStore 10)))"
    by (simp add: createJob_def newStore_def getJob_def Let_def)
  have b: "getJob ?s ''b'' = Some (fst (createJob ''b'' 95 ''b.pdf'' ''application/pdf''
          (snd (createJob ''a'' 5 ''a.pdf'' ''application/pdf'' (newStore 10)))))"
    by (simp add: createJob_def newStore_def getJob_def Let_def)
  from evictExpired_sweep [OF d a, of 100] evictExpired_sweep [OF d b, of 100] d
  show ?thesis by (simp add: createJob_def newStore_def Let_def)
qed

section \<open>The download handler\<close>










section \<open>The upload handler\<close>

lemma endsWith_suffix: "endsWith s suf \<longleftrightarrow> suffix suf s"
proof
  assume "endsWith s suf"
  then have "s = take (length s - length suf) s @ suf"
    by (metis append_take_drop_id endsWith_def)
  then show "suffix suf s" by (rule suffixI)
next
  assume "suffix suf s"
  then obtain zs where "s = zs @ suf" by (auto simp: suffix_def)
  then show "endsWith s suf" by (simp add: endsWith_def)
qed

lemma signTry_response:
  "signTry P tSet tStart job workflowName signerInfo file s = (Inr response, s') \<Longrightarrow>
     \<exists>body. response = JsonResponse 200 (SignBody body)"
  by (auto simp: signTry_def Let_def split: sum.splits)

text \<open>
  Claim C10. For a multipart request whose \<open>file\<close> field is a file, \<open>handleSign\<close>
  answers with the error \<open>Only PDF files are supported\<close> exactly when the file's MIME
  type is not empty, is not \<open>application/pdf\<close>, and the lowercased filename does not
  end in \<open>.pdf\<close>. In particular a file with the empty MIME type never gets this answer,
  whatever its name.
\<close>

theorem handleSign_pdf_check:
  assumes "includesStr (nullish (contentTypeHeader req) []) ''multipart/form-data''"
    and "formData req = Inr form"
    and "map_of form ''file'' = Some (EntryFile file)"
  shows "((\<exists>s'. handleSign P uuid tCreate tSet tStart tFail req s
                  = Inr (JsonResponse 400 (ErrorBody ''Only PDF files are supported''), s')) \<longleftrightarrow>
          (type_file file \<noteq> [] \<and> type_file file \<noteq> ''application/pdf'' \<and>
           \<not> suffix ''.pdf'' (toLowerCase (name_file file)))) \<and>
         (type_file file = [] \<longrightarrow>
          (\<forall>s'. handleSign P uuid tCreate tSet tStart tFail req s
                  \<noteq> Inr (JsonResponse 400 (ErrorBody ''Only PDF files are supported''), s')))"
proof -
  let ?refused = "\<exists>s'. handleSign P uuid tCreate tSet tStart tFail req s
                  = Inr (JsonResponse 400 (ErrorBody ''Only PDF files are supported''), s')"
  have yes: "?refused" if "notPdf file"
    using that assms by (simp add: handleSign_def)
  have no: "\<not> ?refused" if "\<not> notPdf file"
    using that assms
    by (auto simp: handleSign_def Let_def split: option.splits prod.splits sum.splits
          dest: signTry_response)
  have iff: "?refused \<longleftrightarrow> notPdf file"
    using yes no by blast
  have cond: "notPdf file \<longleftrightarrow>
      (type_file file \<noteq> [] \<and> type_file file \<noteq> ''application/pdf'' \<and>
       \<not> suffix ''.pdf'' (toLowerCase (name_file file)))"
    by (simp add: notPdf_def endsWith_suffix)
  from iff cond show ?thesis by auto
qed

theorem handleSign_pdf_check_witness:
  "includesStr (nullish (contentTypeHeader
      \<lparr>contentTypeHeader = Some ''multipart/form-data; boundary=x'',
       formData = Inr [(''file'', EntryFile \<lparr>name_file = ''notes.TXT'', type_file = ''text/plain'',
                                             content_file = [104, 105]\<rparr>)]\<rparr>) [])
     ''multipart/form-data'' \<and>
   (\<exists>s'. handleSign
      \<lparr>createWorkflow = (\<lambda>opts. Inl ''down''), uploadWorkflowDocument = (\<lambda>w f. Inl ''down''),
       applyDefaultSignatureField = (\<lambda>d. Inl ''down''), startWorkflow = (\<lambda>w. Inl ''down''),
       fetchWorkflow = (\<lambda>w. Inl ''down''), downloadWorkflowDocuments = (\<lambda>w. Inl ''down'')\<rparr>
      ''j1'' 1 2 3 4
      \<lparr>contentTypeHeader = Some ''multipart/form-data; boundary=x'',
       formData = Inr [(''file'', EntryFile \<lparr>name_file = ''notes.TXT'', type_file = ''text/plain'',
                                             content_file = [104, 105]\<rparr>)]\<rparr>
      (newStore 10)
    = Inr (JsonResponse 400 (ErrorBody ''Only PDF files are supported''), s'))"
proof -
  let ?file = "\<lparr>name_file = ''notes.TXT'', type_file = ''text/plain'', content_file = [104, 105]\<rparr>"
  let ?form = "[(''file'', EntryFile ?file)]"
  let ?req = "\<lparr>contentTypeHeader = Some ''multipart/form-data; boundary=x'', formData = Inr ?form\<rparr>"
  have h1: "includesStr (nullish (contentTypeHeader ?req) []) ''multipart/form-data''"
    by (simp add: nullish_def)
  have h2: "formData ?req = Inr ?form" by simp
  have h3: "map_of ?form ''file'' = Some (EntryFile ?file)" by simp
  have lc: "toLowerCase ''notes.TXT'' = ''notes.txt''"
    by (simp add: toLowerCase_def toLowerChar_def char_of_def bit_Suc_0_iff)
  have ns: "\<not> suffix ''.pdf'' ''notes.txt''"
    by (simp add: suffix_to_prefix)
  from handleSign_pdf_check [OF h1 h2 h3] h1 lc ns
  show ?thesis by simp
qed

text \<open>
  Claim C9. When the request passes the checks of \<open>handleSign\<close> and the calls that
  create the workflow, upload the document and start the workflow all succeed, the
  handler answers with status 200, and the workflow status of the answer is the status
  returned by the start call when that has one, otherwise the status returned by the
  create call when that has one, otherwise the string \<open>started\<close>.
\<close>

theorem handleSign_workflowStatus:
  assumes "includesStr (nullish (contentTypeHeader req) []) ''multipart/form-data''"
    and "formData req = Inr form"
    and "map_of form ''file'' = Some (EntryFile file)"
    and "\<not> notPdf file"
    and "getTextValue (map_of form ''signer_email'') = Some signerEmail"
    and "createWorkflow P
           \<lparr>name_opt = (case getTextValue (map_of form ''workflow_name'') of
                          Some n \<Rightarrow> n
                        | None \<Rightarrow> orElse (name_file file) ''Document signature workflow''),
            signer = \<lparr>email = signerEmail,
                      firstName = getTextValue (map_of form ''signer_first_name''),
                      lastName = getTextValue (map_of form ''signer_last_name''),
                      preferredLocale = getTextValue (map_of form ''signer_locale''),
                      comments = getTextValue (map_of form ''signer_comments''),
                      consentPageId = getTextValue (map_of form ''signer_consent_page_id''),
                      userId = getTextValue (map_of form ''signer_user_id'')\<rparr>\<rparr>
         = Inr workflow"
    and "uploadWorkflowDocument P (id_wf workflow) file = Inr uploadResult"
    and "startWorkflow P (id_wf workflow) = Inr startedWorkflow"
  shows "\<exists>body s'.
           handleSign P uuid tCreate tSet tStart tFail req s
             = Inr (JsonResponse 200 (SignBody body), s') \<and>
           workflowId_sg body = id_wf workflow \<and>
           workflowStatus_sg body =
             (case workflowStatus_wf startedWorkflow of
                Some afterStart \<Rightarrow> afterStart
              | None \<Rightarrow>
                  (case workflowStatus_wf workflow of
                     Some afterCreate \<Rightarrow> afterCreate
                   | None \<Rightarrow> ''started''))"
  using assms
  by (simp add: handleSign_def signTry_def Let_def nullish_def split: prod.splits option.splits)

theorem handleSign_workflowStatus_witness:
  "\<not> notPdf \<lparr>name_file = ''a.pdf'', type_file = ''application/pdf'', content_file = [37, 80]\<rparr> \<and>
   getTextValue (map_of
      [(''file'', EntryFile \<lparr>name_file = ''a.pdf'', type_file = ''application/pdf'',
                             content_file = [37, 80]\<rparr>),
       (''signer_email'', EntryString '' ann@example.org '')] ''signer_email'')
     = Some ''ann@example.org'' \<and>
   (\<exists>body s'.
      handleSign
        \<lparr>createWorkflow = (\<lambda>opts. Inr \<lparr>id_wf = ''w1'', workflowStatus_wf = Some ''draft''\<rparr>),
         uploadWorkflowDocument = (\<lambda>w f. Inr \<lparr>documentId = Some ''d1''\<rparr>),
         applyDefaultSignatureField = (\<lambda>d. Inl ''no field''),
         startWorkflow = (\<lambda>w. Inr \<lparr>id_wf = w, workflowStatus_wf = None\<rparr>),
         fetchWorkflow = (\<lambda>w. Inl ''down''),
         downloadWorkflowDocuments = (\<lambda>w. Inl ''down'')\<rparr>
        ''j1'' 1 2 3 4
        \<lparr>contentTypeHeader = Some ''multipart/form-data; boundary=x'',
         formData = Inr [(''file'', EntryFile \<lparr>name_file = ''a.pdf'', type_file = ''application/pdf'',
                                               content_file = [37, 80]\<rparr>),
                         (''signer_email'', EntryString '' ann@example.org '')]\<rparr>
        (newStore 10)
      = Inr (JsonResponse 200 (SignBody body), s') \<and>
      workflowId_sg body = ''w1'' \<and> workflowStatus_sg body = ''draft'')"
proof -
  let ?file = "\<lparr>name_file = ''a.pdf'', type_file = ''application/pdf'', content_file = [37, 80]\<rparr>"
  let ?form = "[(''file'', EntryFile ?file), (''signer_email'', EntryString '' ann@example.org '')]"
  let ?req = "\<lparr>contentTypeHeader = Some ''multipart/form-data; boundary=x'', formData = Inr ?form\<rparr>"
  let ?P = "\<lparr>createWorkflow = (\<lambda>opts. Inr \<lparr>id_wf = ''w1'', workflowStatus_wf = Some ''draft''\<rparr>),
         uploadWorkflowDocument = (\<lambda>w f. Inr \<lparr>documentId = Some ''d1''\<rparr>),
         applyDefaultSignatureField = (\<lambda>d. Inl ''no field''),
         startWorkflow = (\<lambda>w. Inr \<lparr>id_wf = w, workflowStatus_wf = None\<rparr>),
         fetchWorkflow = (\<lambda>w. Inl ''down''),
         downloadWorkflowDocuments = (\<lambda>w. Inl ''down'')\<rparr>"
  have h1: "includesStr (nullish (contentTypeHeader ?req) []) ''multipart/form-data''"
    by (simp add: nullish_def)
  have h2: "formData ?req = Inr ?form" by simp
  have h3: "map_of ?form ''file'' = Some (EntryFile ?file)" by simp
  have h4: "\<not> notPdf ?file" by (simp add: notPdf_def)
  have h5: "getTextValue (map_of ?form ''signer_email'') = Some ''ann@example.org''"
    by (simp add: getTextValue_def trim_def isSpace_def)
  have h6: "createWorkflow ?P
           \<lparr>name_opt = (case getTextValue (map_of ?form ''workflow_name'') of
                          Some n \<Rightarrow> n
                        | None \<Rightarrow> orElse (name_file ?file) ''Document signature workflow''),
            signer = \<lparr>email = ''ann@example.org'',
                      firstName = getTextValue (map_of ?form ''signer_first_name''),
                      lastName = getTextValue (map_of ?form ''signer_last_name''),
                      preferredLocale = getTextValue (map_of ?form ''signer_locale''),
                      comments = getTextValue (map_of ?form ''signer_comments''),
                      consentPageId = getTextValue (map_of ?form ''signer_consent_page_id''),
                      userId = getTextValue (map_of ?form ''signer_user_id'')\<rparr>\<rparr>
         = Inr \<lparr>id_wf = ''w1'', workflowStatus_wf = Some ''draft''\<rparr>"
    by simp
  have h7: "uploadWorkflowDocument ?P (id_wf \<lparr>id_wf = ''w1'', workflowStatus_wf = Some ''draft''\<rparr>) ?file
              = Inr \<lparr>documentId = Some ''d1''\<rparr>"
    by simp
  have h8: "startWorkflow ?P (id_wf \<lparr>id_wf = ''w1'', workflowStatus_wf = Some ''draft''\<rparr>)
              = Inr \<lparr>id_wf = ''w1'', workflowStatus_wf = None\<rparr>"
    by simp
  from handleSign_workflowStatus [OF h1 h2 h3 h4 h5 h6 h7 h8, of "''j1''" 1 2 3 4 "newStore 10"] h4 h5
  show ?thesis by simp
qed

section \<open>The status poll\<close>

text \<open>
  Claim C4. A status poll for a pending job with a (non-empty) workflow identifier
  fetches the remote workflow. When the remote status lowercases to \<open>finished\<close> and the
  download succeeds, the job becomes \<open>completed\<close> with the downloaded bytes, the
  downloaded filename (or the derived one when the download names none) and the
  downloaded content type. When it lowercases to \<open>stopped\<close>, \<open>refused\<close>, \<open>canceled\<close>
  or \<open>failed\<close>, the job becomes \<open>error\<close> with the message \<open>Workflow\<close> followed by the
  remote status. For any other remote status the job stays \<open>pending\<close> and differs
  from what it was in nothing but \<open>workflowStatus\<close> and the \<open>updatedAt\<close> stamp that
  every store call sets: \<open>workflowStatus\<close> is refreshed to the remote status (an empty
  remote status, which is falsy, refreshes nothing). In each case the answer reports
  the job as it is then stored.
\<close>

theorem handleGetStatus_reconcile:
  assumes "getJob s jobId = Some job"
    and "id_job job = jobId"
    and "status job = Pending"
    and "workflowId job = Some wfId"
    and "wfId \<noteq> []"
    and "fetchWorkflow P wfId = Inr workflow"
    and "workflowStatus_wf workflow = Some remote"
  shows "(toLowerCase remote = ''finished'' \<and> downloadWorkflowDocuments P wfId = Inr signedDl \<longrightarrow>
           (let job' = job\<lparr>workflowStatus := Some remote,
                            status := Completed,
                            updatedAt := tFinal,
                            signedDocument := Some (bytes_dl signedDl),
                            signedFileName :=
                              Some (case fileName_dl signedDl of
                                      Some n \<Rightarrow> n
                                    | None \<Rightarrow> defaultSignedName (fileName job)),
                            signedContentType := Some (contentType_dl signedDl)\<rparr>
            in \<exists>s'. handleGetStatus P tRefresh tFinal jobId s
                        = Inr (JsonResponse 200 (StatusBody (statusSummary job')), s') \<and>
                     getJob s' jobId = Some job')) \<and>
         (toLowerCase remote \<in> {''stopped'', ''refused'', ''canceled'', ''failed''} \<longrightarrow>
           (let job' = job\<lparr>workflowStatus := Some remote,
                            status := Error,
                            updatedAt := tFinal,
                            errorMessage := Some (''Workflow '' @ remote)\<rparr>
            in \<exists>s'. handleGetStatus P tRefresh tFinal jobId s
                        = Inr (JsonResponse 200 (StatusBody (statusSummary job')), s') \<and>
                     getJob s' jobId = Some job')) \<and>
         (toLowerCase remote \<notin> {''finished'', ''stopped'', ''refused'', ''canceled'', ''failed''} \<longrightarrow>
           (let job' = (if remote \<noteq> []
                        then job\<lparr>workflowStatus := Some remote, updatedAt := tRefresh\<rparr>
                        else job)
            in status job' = Pending \<and>
               job' = job\<lparr>workflowStatus := workflowStatus job', updatedAt := updatedAt job'\<rparr> \<and>
               (\<exists>s'. handleGetStatus P tRefresh tFinal jobId s
                        = Inr (JsonResponse 200 (StatusBody (statusSummary job')), s') \<and>
                      getJob s' jobId = Some job')))"
proof (intro conjI impI)
  assume fin: "toLowerCase remote = ''finished'' \<and> downloadWorkflowDocuments P wfId = Inr signedDl"
  then have "remote \<noteq> []" by (auto simp: toLowerCase_def)
  with fin assms show "let job' = job\<lparr>workflowStatus := Some remote,
                            status := Completed,
                            updatedAt := tFinal,
                            signedDocument := Some (bytes_dl signedDl),
                            signedFileName :=
                              Some (case fileName_dl signedDl of
                                      Some n \<Rightarrow> n
                                    | None \<Rightarrow> defaultSignedName (fileName job)),
                            signedContentType := Some (contentType_dl signedDl)\<rparr>
            in \<exists>s'. handleGetStatus P tRefresh tFinal jobId s
                        = Inr (JsonResponse 200 (StatusBody (statusSummary job')), s') \<and>
                     getJob s' jobId = Some job'"
    by (simp add: handleGetStatus_def statusTry_def Let_def nullish_def
          getJob_setWorkflowStatus getJob_completeJob split: option.split)
next
  assume bad: "toLowerCase remote \<in> {''stopped'', ''refused'', ''canceled'', ''failed''}"
  then have "remote \<noteq> []" by (auto simp: toLowerCase_def)
  moreover from bad have "toLowerCase remote \<noteq> ''finished''" by auto
  moreover from bad have "toLowerCase remote \<noteq> []" by auto
  ultimately show "let job' = job\<lparr>workflowStatus := Some remote,
                            status := Error,
                            updatedAt := tFinal,
                            errorMessage := Some (''Workflow '' @ remote)\<rparr>
            in \<exists>s'. handleGetStatus P tRefresh tFinal jobId s
                        = Inr (JsonResponse 200 (StatusBody (statusSummary job')), s') \<and>
                     getJob s' jobId = Some job'"
    using bad assms
    by (simp add: handleGetStatus_def statusTry_def Let_def nullish_def
          getJob_setWorkflowStatus getJob_failJob)
next
  assume other: "toLowerCase remote \<notin> {''finished'', ''stopped'', ''refused'', ''canceled'', ''failed''}"
  with assms show "let job' = (if remote \<noteq> []
                        then job\<lparr>workflowStatus := Some remote, updatedAt := tRefresh\<rparr>
                        else job)
            in status job' = Pending \<and>
               job' = job\<lparr>workflowStatus := workflowStatus job', updatedAt := updatedAt job'\<rparr> \<and>
               (\<exists>s'. handleGetStatus P tRefresh tFinal jobId s
                        = Inr (JsonResponse 200 (StatusBody (statusSummary job')), s') \<and>
                      getJob s' jobId = Some job')"
    by (simp add: handleGetStatus_def statusTry_def Let_def nullish_def
          getJob_setWorkflowStatus toLowerCase_def)
qed

theorem handleGetStatus_reconcile_witness:
  "(\<exists>job s'.
      getJob (setWorkflow 2 ''j1'' ''w1'' (Some ''started'')
                (snd (createJob ''j1'' 1 ''invoice.pdf'' ''application/pdf'' (newStore 10)))) ''j1''
        = Some job \<and>
      id_job job = ''j1'' \<and> status job = Pending \<and> workflowId job = Some ''w1'' \<and>
      handleGetStatus
        \<lparr>createWorkflow = (\<lambda>opts. Inl ''down''), uploadWorkflowDocument = (\<lambda>w f. Inl ''down''),
         applyDefaultSignatureField = (\<lambda>d. Inl ''down''), startWorkflow = (\<lambda>w. Inl ''down''),
         fetchWorkflow = (\<lambda>w. Inr \<lparr>id_wf = w, workflowStatus_wf = Some ''Finished''\<rparr>),
         downloadWorkflowDocuments =
           (\<lambda>w. Inr \<lparr>bytes_dl = [37, 80], fileName_dl = None, contentType_dl = ''application/zip''\<rparr>)\<rparr>
        5 6 ''j1''
        (setWorkflow 2 ''j1'' ''w1'' (Some ''started'')
           (snd (createJob ''j1'' 1 ''invoice.pdf'' ''application/pdf'' (newStore 10))))
        = Inr (JsonResponse 200 (StatusBody (statusSummary
                 (job\<lparr>workflowStatus := Some ''Finished'', status := Completed, updatedAt := 6,
                       signedDocument := Some [37, 80],
                       signedFileName := Some ''invoice-signed.pdf'',
                       signedContentType := Some ''application/zip''\<rparr>))), s') \<and>
      map_option status (getJob s' ''j1'') = Some Completed) \<and>
   (\<exists>job s'.
      getJob (setWorkflow 2 ''j1'' ''w1'' (Some ''started'')
                (snd (createJob ''j1'' 1 ''invoice.pdf'' ''application/pdf'' (newStore 10)))) ''j1''
        = Some job \<and>
      handleGetStatus
        \<lparr>createWorkflow = (\<lambda>opts. Inl ''down''), uploadWorkflowDocument = (\<lambda>w f. Inl ''down''),
         applyDefaultSignatureField = (\<lambda>d. Inl ''down''), startWorkflow = (\<lambda>w. Inl ''down''),
         fetchWorkflow = (\<lambda>w. Inr \<lparr>id_wf = w, workflowStatus_wf = Some ''REFUSED''\<rparr>),
         downloadWorkflowDocuments = (\<lambda>w. Inl ''down'')\<rparr>
        5 6 ''j1''
        (setWorkflow 2 ''j1'' ''w1'' (Some ''started'')
           (snd (createJob ''j1'' 1 ''invoice.pdf'' ''application/pdf'' (newStore 10))))
        = Inr (JsonResponse 200 (StatusBody (statusSummary
                 (job\<lparr>workflowStatus := Some ''REFUSED'', status := Error, updatedAt := 6,
                       errorMessage := Some ''Workflow REFUSED''\<rparr>))), s') \<and>
      map_option errorMessage (getJob s' ''j1'') = Some (Some ''Workflow REFUSED''))"
proof -
  let ?s = "setWorkflow 2 ''j1'' ''w1'' (Some ''started'')
              (snd (createJob ''j1'' 1 ''invoice.pdf'' ''application/pdf'' (newStore 10)))"
  let ?dl = "\<lparr>bytes_dl = [37, 80], fileName_dl = None, contentType_dl = ''application/zip''\<rparr>"
  let ?P1 = "\<lparr>createWorkflow = (\<lambda>opts. Inl ''down''), uploadWorkflowDocument = (\<lambda>w f. Inl ''down''),
         applyDefaultSignatureField = (\<lambda>d. Inl ''down''), startWorkflow = (\<lambda>w. Inl ''down''),
         fetchWorkflow = (\<lambda>w. Inr \<lparr>id_wf = w, workflowStatus_wf = Some ''Finished''\<rparr>),
         downloadWorkflowDocuments = (\<lambda>w. Inr ?dl)\<rparr>"
  let ?P2 = "\<lparr>createWorkflow = (\<lambda>opts. Inl ''down''), uploadWorkflowDocument = (\<lambda>w f. Inl ''down''),
         applyDefaultSignatureField = (\<lambda>d. Inl ''down''), startWorkflow = (\<lambda>w. Inl ''down''),
         fetchWorkflow = (\<lambda>w. Inr \<lparr>id_wf = w, workflowStatus_wf = Some ''REFUSED''\<rparr>),
         downloadWorkflowDocuments = (\<lambda>w. Inl ''down'')\<rparr>"
  obtain job where j: "getJob ?s ''j1'' = Some job" and i: "id_job job = ''j1''"
    and p: "status job = Pending" and w: "workflowId job = Some ''w1''"
    and f: "fileName job = ''invoice.pdf''"
    by (simp add: getJob_setWorkflow getJob_createJob fst_createJob)
  have ne: "''w1'' \<noteq> []" by simp
  have f1: "fetchWorkflow ?P1 ''w1'' = Inr \<lparr>id_wf = ''w1'', workflowStatus_wf = Some ''Finished''\<rparr>"
    by simp
  have f2: "fetchWorkflow ?P2 ''w1'' = Inr \<lparr>id_wf = ''w1'', workflowStatus_wf = Some ''REFUSED''\<rparr>"
    by simp
  have r1: "workflowStatus_wf \<lparr>id_wf = ''w1'', workflowStatus_wf = Some ''Finished''\<rparr> = Some ''Finished''"
    by simp
  have r2: "workflowStatus_wf \<lparr>id_wf = ''w1'', workflowStatus_wf = Some ''REFUSED''\<rparr> = Some ''REFUSED''"
    by simp
  have lc1: "toLowerCase ''Finished'' = ''finished''"
    by (simp add: toLowerCase_def toLowerChar_def char_of_def bit_Suc_0_iff)
  have lc2: "toLowerCase ''REFUSED'' = ''refused''"
    by (simp add: toLowerCase_def toLowerChar_def char_of_def bit_Suc_0_iff)
  have d1: "downloadWorkflowDocuments ?P1 ''w1'' = Inr ?dl" by simp
  have dn: "defaultSignedName ''invoice.pdf'' = ''invoice-signed.pdf''"
    by (simp add: defaultSignedName_def)
  from handleGetStatus_reconcile [OF j i p w ne f1 r1, of ?dl 6 5] lc1 d1 f dn
  obtain s1 where a1: "handleGetStatus ?P1 5 6 ''j1'' ?s
        = Inr (JsonResponse 200 (StatusBody (statusSummary
                 (job\<lparr>workflowStatus := Some ''Finished'', status := Completed, updatedAt := 6,
                       signedDocument := Some [37, 80],
                       signedFileName := Some ''invoice-signed.pdf'',
                       signedContentType := Some ''application/zip''\<rparr>))), s1)"
    and b1: "map_option status (getJob s1 ''j1'') = Some Completed"
    by (auto simp: Let_def)
  from handleGetStatus_reconcile [OF j i p w ne f2 r2, of ?dl 6 5] lc2
  obtain s2 where a2: "handleGetStatus ?P2 5 6 ''j1'' ?s
        = Inr (JsonResponse 200 (StatusBody (statusSummary
                 (job\<lparr>workflowStatus := Some ''REFUSED'', status := Error, updatedAt := 6,
                       errorMessage := Some ''Workflow REFUSED''\<rparr>))), s2)"
    and b2: "map_option errorMessage (getJob s2 ''j1'') = Some (Some ''Workflow REFUSED'')"
    by (auto simp: Let_def)
  from j i p w a1 b1 a2 b2 show ?thesis by blast
qed

text \<open>
  The premise of the last theorem that a job is stored under its own \<open>id\<close> holds in
  every store reached from the empty one.
\<close>

lemma id_job_applyOp:
  assumes inv: "\<And>k j. getJob s k = Some j \<Longrightarrow> id_job j = k"
    and after: "getJob (applyOp op s) k = Some j"
  shows "id_job j = k"
proof (cases op)
  case (OpCreateJob uuid now fName fType)
  with after inv show ?thesis
    by (auto simp: getJob_createJob fst_createJob split: if_splits)
next
  case (OpSetWorkflow now k' wfId wfStatus)
  with after inv show ?thesis
    by (auto simp: getJob_setWorkflow split: if_splits)
next
  case (OpSetWorkflowStatus now k' wfStatus)
  with after inv show ?thesis
    by (auto simp: getJob_setWorkflowStatus split: if_splits)
next
  case (OpCompleteJob now k' payload)
  with after inv show ?thesis
    by (auto simp: getJob_completeJob split: if_splits)
next
  case (OpFailJob now k' msg)
  with after inv show ?thesis
    by (auto simp: getJob_failJob split: if_splits)
next
  case (OpEvictExpired now)
  with after inv show ?thesis
    by (auto dest: getJob_evictExpired_Some)
qed

lemma id_job_runOps:
  "getJob (runOps ops (newStore ttl)) k = Some j \<Longrightarrow> id_job j = k"
proof (induction ops arbitrary: k j rule: rev_induct)
  case Nil
  then show ?case by (simp add: runOps_def newStore_def getJob_def)
next
  case (snoc op ops)
  show ?case
  proof (rule id_job_applyOp)
    show "getJob (applyOp op (runOps ops (newStore ttl))) k = Some j"
      using snoc.prems by (simp add: runOps_snoc)
  next
    fix k' j'
    assume "getJob (runOps ops (newStore ttl)) k' = Some j'"
    then show "id_job j' = k'" by (rule snoc.IH)
  qed
qed

section \<open>Supporting facts on the handlers\<close>

text \<open>
  The store calls of \<open>completeJob\<close> and \<open>failJob\<close> in the status poll are guarded by
  the handler: for a job that is no longer pending the poll makes no remote call and
  leaves the store as it is.
\<close>

lemma handleGetStatus_not_pending:
  "getJob s jobId = Some job \<Longrightarrow> status job \<noteq> Pending \<Longrightarrow>
     handleGetStatus P tRefresh tFinal jobId s
       = Inr (JsonResponse 200 (StatusBody (statusSummary job)), s)"
  by (simp add: handleGetStatus_def split: option.splits)

text \<open>
  In \<open>handleSign\<close> the variable \<open>job\<close> is the object held by the store. The model
  reads \<open>id\<close>, \<open>status\<close> and \<open>fileName\<close> from the record \<open>createJob\<close> returned; the
  record held by the store when the \<open>try\<close> block ends has the same three values.
\<close>

lemma signTry_live_job:
  assumes "getJob s (id_job job) = Some job"
    and "signTry P tSet tStart job workflowName signerInfo file s = (r, s')"
  shows "\<exists>live. getJob s' (id_job job) = Some live \<and> id_job live = id_job job \<and>
           status live = status job \<and> fileName live = fileName job"
  using assms
  by (auto simp: signTry_def Let_def getJob_setWorkflow getJob_setWorkflowStatus
        split: sum.splits option.splits if_splits)

text \<open>
  The premise of the eviction theorem that the keys of the map are distinct holds in every
  store reached from the empty one.
\<close>

lemma distinct_evictLoop:
  "distinct (map fst m) \<Longrightarrow> distinct (map fst (evictLoop now ttl entries m))"
  by (induction entries arbitrary: m) (auto simp: AList.distinct_delete)

lemma distinct_applyOp:
  assumes "distinct (map fst (jobs s))"
  shows "distinct (map fst (jobs (applyOp op s)))"
proof (cases op)
  case (OpCreateJob uuid now fName fType)
  with assms show ?thesis by (simp add: createJob_def Let_def AList.distinct_update)
next
  case (OpSetWorkflow now k wfId wfStatus)
  with assms show ?thesis
    by (simp add: setWorkflow_def AList.distinct_update split: option.splits)
next
  case (OpSetWorkflowStatus now k wfStatus)
  with assms show ?thesis
    by (simp add: setWorkflowStatus_def AList.distinct_update split: option.splits)
next
  case (OpCompleteJob now k payload)
  with assms show ?thesis
    by (simp add: completeJob_def AList.distinct_update split: option.splits)
next
  case (OpFailJob now k msg)
  with assms show ?thesis
    by (simp add: failJob_def AList.distinct_update split: option.splits)
next
  case (OpEvictExpired now)
  with assms show ?thesis by (simp add: evictExpired_def distinct_evictLoop)
qed

lemma distinct_runOps: "distinct (map fst (jobs (runOps ops (newStore ttl))))"
proof (induction ops rule: rev_induct)
  case Nil
  show ?case by (simp add: runOps_def newStore_def)
next
  case (snoc op ops)
  then show ?case by (simp add: runOps_snoc distinct_applyOp)
qed

end
